theory Spec2Isabelle
  imports Main
begin

section \<open>The Netcup inventory plugin (plugins/inventory/netcup.py)\<close>

subsection \<open>Data\<close>

text \<open>
  Values the plugin stores in host variables: the strings of a server record and its
  boolean \<^verbatim>\<open>rebootRecommended\<close> flag.
\<close>

datatype pyval = Str string | Bool bool

text \<open>
  The detail record returned by \<^verbatim>\<open>getVServerInformation\<close>, with the five keys that
  \<^verbatim>\<open>_parse_server\<close> reads.
\<close>

record server_data =
  vServerName :: string
  vServerNickname :: string
  status :: string
  ips :: "string list"
  rebootRecommended :: bool

text \<open>
  The options of the DOCUMENTATION block, as \<^verbatim>\<open>self.get_option\<close> returns them.
  The option \<^verbatim>\<open>group\<close> is the field \<open>group_opt\<close>.
\<close>

record options =
  customer_id :: string
  password :: string
  wsdl_url :: string
  group_opt :: string
  ansible_host_type :: string
  ansible_host_suffix :: string
  hostname_prefix :: string
  hostname_suffix :: string

text \<open>
  The exceptions of a run: \<^verbatim>\<open>AnsibleParserError\<close> with its message, the
  \<^verbatim>\<open>IndexError\<close> of \<^verbatim>\<open>server_data['ips'][0]\<close> on an empty list, and the
  configuration error for a value of \<^verbatim>\<open>ansible_host_type\<close> outside its declared
  choices, which carries the value refused (\<open>InvalidMode\<close> in the specification).
\<close>

datatype error = AnsibleParserError string | IndexError | InvalidMode string

text \<open>
  The SOAP client (zeep) is external: a service call either raises or returns. The
  listing may return Python's \<^verbatim>\<open>None\<close> instead of a list.
\<close>

datatype 'a outcome = Raises | Returns 'a

record service =
  getVServers :: "string \<Rightarrow> string \<Rightarrow> string list option outcome"
  getVServerInformation :: "string \<Rightarrow> string \<Rightarrow> string \<Rightarrow> string \<Rightarrow> server_data outcome"

subsection \<open>The inventory sink\<close>

text \<open>
  \<^verbatim>\<open>self.inventory\<close> is the orchestration tool's object; the plugin only calls four of
  its methods. The inventory is modelled by the sequence of calls made on it, oldest
  first, so that the order of the side effects is part of the state.
\<close>

datatype sink_call =
  AddGroup string
  | AddHost string
  | SetVariable string string pyval
  | AddChild string string

type_synonym inventory = "sink_call list"

definition add_group :: "string \<Rightarrow> inventory \<Rightarrow> inventory" where
  "add_group g inventory = inventory @ [AddGroup g]"

definition add_host :: "string \<Rightarrow> inventory \<Rightarrow> inventory" where
  "add_host h inventory = inventory @ [AddHost h]"

definition set_variable :: "string \<Rightarrow> string \<Rightarrow> pyval \<Rightarrow> inventory \<Rightarrow> inventory" where
  "set_variable h k v inventory = inventory @ [SetVariable h k v]"

definition add_child :: "string \<Rightarrow> string \<Rightarrow> inventory \<Rightarrow> inventory" where
  "add_child g h inventory = inventory @ [AddChild g h]"

text \<open>
  Modelled from the spec: the contents of the Inventory Sink, which is not part of the
  repository's source. Section 3 and section 6 of the specification give it host
  entries addressed by name, each with a bag of variables, and groups with member
  hosts. A host entry is keyed by its name (\<^verbatim>\<open>set_variable(host, key, value)\<close> has
  nothing else to address it by), adding a name that exists keeps the entry, and
  setting a variable replaces its value. Hosts and groups are separate name spaces
  here, and no call on the sink raises.
\<close>

record sink =
  hosts :: "string \<rightharpoonup> (string \<rightharpoonup> pyval)"
  groups :: "string \<rightharpoonup> string set"

definition empty_sink :: sink where
  "empty_sink = \<lparr>hosts = Map.empty, groups = Map.empty\<rparr>"

fun apply_call :: "sink \<Rightarrow> sink_call \<Rightarrow> sink" where
  "apply_call s (AddGroup g) =
     (case groups s g of
        None \<Rightarrow> s\<lparr>groups := (groups s)(g \<mapsto> {})\<rparr>
      | Some _ \<Rightarrow> s)"
| "apply_call s (AddHost h) =
     (case hosts s h of
        None \<Rightarrow> s\<lparr>hosts := (hosts s)(h \<mapsto> Map.empty)\<rparr>
      | Some _ \<Rightarrow> s)"
| "apply_call s (SetVariable h k v) =
     (case hosts s h of
        None \<Rightarrow> s
      | Some vars \<Rightarrow> s\<lparr>hosts := (hosts s)(h \<mapsto> vars(k \<mapsto> v))\<rparr>)"
| "apply_call s (AddChild g h) =
     (case groups s g of
        None \<Rightarrow> s
      | Some members \<Rightarrow> s\<lparr>groups := (groups s)(g \<mapsto> insert h members)\<rparr>)"

definition contents :: "inventory \<Rightarrow> sink" where
  "contents inventory = foldl apply_call empty_sink inventory"

text \<open>The groups a host belongs to.\<close>

definition groups_of :: "sink \<Rightarrow> string \<Rightarrow> string set" where
  "groups_of s h = {g. \<exists>members. groups s g = Some members \<and> h \<in> members}"

subsection \<open>\<^verbatim>\<open>_get_server_list\<close> and \<^verbatim>\<open>_get_server_info\<close>\<close>

text \<open>
  Both build a client from the WSDL address (the parameter \<open>ZClient\<close>) and turn any
  exception of the call into an \<^verbatim>\<open>AnsibleParserError\<close>. The messages are plain
  strings in the source, not f-strings, so \<^verbatim>\<open>{err}\<close> is kept as written.
\<close>

definition get_server_list ::
  "(string \<Rightarrow> service) \<Rightarrow> string \<Rightarrow> string \<Rightarrow> string \<Rightarrow> error + string list option" where
  "get_server_list ZClient url username pw =
     (let client = ZClient url in
      case getVServers client username pw of
        Raises \<Rightarrow> Inl (AnsibleParserError ''Unable to get server list: {err}'')
      | Returns server_list \<Rightarrow> Inr server_list)"

definition get_server_info ::
  "(string \<Rightarrow> service) \<Rightarrow> string \<Rightarrow> string \<Rightarrow> string \<Rightarrow> string \<Rightarrow> error + server_data" where
  "get_server_info ZClient url username pw server_name =
     (let client = ZClient url in
      case getVServerInformation client username pw server_name ''en'' of
        Raises \<Rightarrow> Inl (AnsibleParserError ''Unable to get server information: {err}'')
      | Returns server_info \<Rightarrow> Inr server_info)"

subsection \<open>\<^verbatim>\<open>_parse_server\<close>\<close>

text \<open>Lines 194 to 203: the name under which the server enters the inventory.\<close>

definition servername :: "options \<Rightarrow> server_data \<Rightarrow> string" where
  "servername opts server_data =
     (let srv_prefix = hostname_prefix opts;
          name0 = srv_prefix;
          name1 = (if length (vServerNickname server_data) > 0
                   then name0 @ vServerNickname server_data
                   else name0 @ vServerName server_data);
          srv_suffix = hostname_suffix opts
      in name1 @ srv_suffix)"

text \<open>\<^verbatim>\<open>xs[0]\<close>: Python raises \<^verbatim>\<open>IndexError\<close> on an empty list.\<close>

definition index0 :: "'a list \<Rightarrow> error + 'a" where
  "index0 xs = (case xs of [] \<Rightarrow> Inl IndexError | x # _ \<Rightarrow> Inr x)"

text \<open>
  Lines 209 to 227: the \<^verbatim>\<open>match\<close> on \<^verbatim>\<open>ansible_host_type\<close>. It has three cases and no
  wildcard case, so on any other value it would fall through and leave the inventory as
  it is.
\<close>

definition match_ansible_host_type ::
  "options \<Rightarrow> server_data \<Rightarrow> string \<Rightarrow> inventory \<Rightarrow> error + inventory" where
  "match_ansible_host_type opts server_data name inventory =
     (if ansible_host_type opts = ''ip'' then
        (case index0 (ips server_data) of
           Inl e \<Rightarrow> Inl e
         | Inr ip \<Rightarrow> Inr (set_variable name ''ansible_host'' (Str ip) inventory))
      else if ansible_host_type opts = ''name'' then
        Inr (set_variable name ''ansible_host'' (Str name) inventory)
      else if ansible_host_type opts = ''suffix'' then
        (case index0 (ips server_data) of
           Inl e \<Rightarrow> Inl e
         | Inr ip \<Rightarrow> Inr (set_variable name ''ansible_host'' (Str ip) inventory))
      else Inr inventory)"

text \<open>Lines 229 to 234: the dictionary \<^verbatim>\<open>server_vars\<close>, in insertion order.\<close>

definition server_vars :: "server_data \<Rightarrow> (string \<times> pyval) list" where
  "server_vars server_data =
     [(''server_name'', Str (vServerName server_data)),
      (''server_nickname'', Str (vServerNickname server_data)),
      (''reboot_recommended'', Bool (rebootRecommended server_data)),
      (''status'', Str (status server_data))]"

text \<open>Lines 236 and 237: the loop over \<^verbatim>\<open>server_vars.items()\<close>.\<close>

fun set_server_vars :: "string \<Rightarrow> (string \<times> pyval) list \<Rightarrow> inventory \<Rightarrow> inventory" where
  "set_server_vars name [] inventory = inventory"
| "set_server_vars name ((hostvar, ws_var) # rest) inventory =
     set_server_vars name rest (set_variable name (''netcup_'' @ hostvar) ws_var inventory)"

text \<open>
  The whole method. The result is the exception raised, if any, and the inventory as
  the method leaves it: an exception does not undo the calls made before it.
\<close>

definition parse_server :: "options \<Rightarrow> server_data \<Rightarrow> inventory \<Rightarrow> (error + unit) \<times> inventory" where
  "parse_server opts server_data inventory =
     (let name = servername opts server_data in
      if status server_data = ''online'' then
        (let inv1 = add_host name inventory in
         case match_ansible_host_type opts server_data name inv1 of
           Inl e \<Rightarrow> (Inl e, inv1)
         | Inr inv2 \<Rightarrow>
             (let inv3 = set_server_vars name (server_vars server_data) inv2
              in (Inr (), add_child (group_opt opts) name inv3)))
      else (Inr (), inventory))"

subsection \<open>\<^verbatim>\<open>parse\<close>\<close>

text \<open>Lines 271 and 272: one detail call per listed server, then \<^verbatim>\<open>_parse_server\<close>.\<close>

fun parse_servers ::
  "(string \<Rightarrow> service) \<Rightarrow> options \<Rightarrow> string list \<Rightarrow> inventory \<Rightarrow> (error + unit) \<times> inventory" where
  "parse_servers ZClient opts [] inventory = (Inr (), inventory)"
| "parse_servers ZClient opts (server # rest) inventory =
     (case get_server_info ZClient (wsdl_url opts) (customer_id opts) (password opts) server of
        Inl e \<Rightarrow> (Inl e, inventory)
      | Inr info \<Rightarrow>
          (case parse_server opts info inventory of
             (Inl e, inventory') \<Rightarrow> (Inl e, inventory')
           | (Inr _, inventory') \<Rightarrow> parse_servers ZClient opts rest inventory'))"

text \<open>Lines 269 to 272: the group is created, then the servers are processed.\<close>

definition build ::
  "(string \<Rightarrow> service) \<Rightarrow> options \<Rightarrow> string list \<Rightarrow> inventory \<Rightarrow> (error + unit) \<times> inventory" where
  "build ZClient opts server_list inventory =
     parse_servers ZClient opts server_list (add_group (group_opt opts) inventory)"

text \<open>
  Lines 262 to 272. \<^verbatim>\<open>not server_list\<close> holds for \<^verbatim>\<open>None\<close> and for the empty list,
  so the second test can never fire; it is kept as the source has it.
\<close>

definition parse :: "(string \<Rightarrow> service) \<Rightarrow> options \<Rightarrow> inventory \<Rightarrow> (error + unit) \<times> inventory" where
  "parse ZClient opts inventory =
     (case get_server_list ZClient (wsdl_url opts) (customer_id opts) (password opts) of
        Inl e \<Rightarrow> (Inl e, inventory)
      | Inr server_list \<Rightarrow>
          (case server_list of
             None \<Rightarrow> (Inl (AnsibleParserError ''Did not receive a server list from Webservice.''), inventory)
           | Some [] \<Rightarrow> (Inl (AnsibleParserError ''Did not receive a server list from Webservice.''), inventory)
           | Some (s # ss) \<Rightarrow>
               if length (s # ss) = 0 then (Inl (AnsibleParserError ''Empty server list''), inventory)
               else build ZClient opts (s # ss) inventory))"

subsection \<open>Loading the options\<close>

text \<open>
  Lines 91 to 94 of the DOCUMENTATION block: the values that \<^verbatim>\<open>ansible_host_type\<close>
  may take.
\<close>

definition ansible_host_type_choices :: "string list" where
  "ansible_host_type_choices = [''ip'', ''name'', ''suffix'']"

text \<open>
  Modelled from the spec: \<^verbatim>\<open>self._read_config_data(path)\<close> of line 252, the option
  loading of the host framework, which is not part of the repository's source. The
  specification makes \<^verbatim>\<open>ansible_host_type\<close> an enumeration of \<open>ip\<close>, \<open>name\<close> and
  \<open>suffix\<close> (section 6), leaves the validation of the configuration to the host
  framework (section 1) and makes an unsupported mode a fatal configuration error,
  \<open>InvalidMode\<close> (section 7). So loading a configuration whose mode is not among the
  declared choices raises that error, and any other configuration is handed on as it
  is. Only this check is modelled; defaults, the environment and the other options are
  taken as already resolved in the record.
\<close>

definition read_config_data :: "options \<Rightarrow> error + options" where
  "read_config_data config =
     (if ansible_host_type config \<in> set ansible_host_type_choices then Inr config
      else Inl (InvalidMode (ansible_host_type config)))"

text \<open>
  Lines 249 to 272: the whole method, from the configuration as the inventory file and
  the environment give it. The options are loaded first (line 252); an exception there
  ends the run before the listing call.
\<close>

definition parse_config ::
  "(string \<Rightarrow> service) \<Rightarrow> options \<Rightarrow> inventory \<Rightarrow> (error + unit) \<times> inventory" where
  "parse_config ZClient config inventory =
     (case read_config_data config of
        Inl e \<Rightarrow> (Inl e, inventory)
      | Inr opts \<Rightarrow> parse ZClient opts inventory)"

subsection \<open>Observations on the inventory\<close>

text \<open>
  The connection addresses a sequence of calls sets: the host and the value of every
  \<^verbatim>\<open>set_variable(host, 'ansible_host', value)\<close>, in order.
\<close>

fun ansible_host_calls :: "inventory \<Rightarrow> (string \<times> pyval) list" where
  "ansible_host_calls [] = []"
| "ansible_host_calls (SetVariable h k v # calls) =
     (if k = ''ansible_host'' then (h, v) # ansible_host_calls calls
      else ansible_host_calls calls)"
| "ansible_host_calls (_ # calls) = ansible_host_calls calls"

text \<open>
  What it means for the variable bag of a host entry to hold the values of a record:
  the four \<open>netcup_\<close> variables are the record's fields and, in a mode that selects an
  address, \<open>ansible_host\<close> is the address selected for that record.
\<close>

definition carries :: "options \<Rightarrow> server_data \<Rightarrow> (string \<rightharpoonup> pyval) \<Rightarrow> bool" where
  "carries opts r vars \<longleftrightarrow>
     vars ''netcup_server_name'' = Some (Str (vServerName r)) \<and>
     vars ''netcup_server_nickname'' = Some (Str (vServerNickname r)) \<and>
     vars ''netcup_reboot_recommended'' = Some (Bool (rebootRecommended r)) \<and>
     vars ''netcup_status'' = Some (Str (status r)) \<and>
     (ansible_host_type opts = ''name'' \<longrightarrow>
        vars ''ansible_host'' = Some (Str (servername opts r))) \<and>
     (ansible_host_type opts = ''ip'' \<or> ansible_host_type opts = ''suffix'' \<longrightarrow>
        (case ips r of [] \<Rightarrow> False | ip # _ \<Rightarrow> vars ''ansible_host'' = Some (Str ip)))"

subsection \<open>Example inputs\<close>

text \<open>
  The options of the basic example of the plugin's documentation, every other option at
  its default, and the two records of the specification's example: \<open>v1\<close> is online
  and has no nickname, \<open>v2\<close> is offline and has the nickname \<open>web\<close>.
\<close>

definition default_opts :: options where
  "default_opts = \<lparr>customer_id = ''1234'', password = ''awesomepassword'',
     wsdl_url = ''https://www.servercontrolpanel.de/WSEndUser?wsdl'', group_opt = ''netcup'',
     ansible_host_type = ''ip'', ansible_host_suffix = [], hostname_prefix = [],
     hostname_suffix = []\<rparr>"

definition server_v1 :: server_data where
  "server_v1 = \<lparr>vServerName = ''v1'', vServerNickname = [], status = ''online'',
     ips = [''1.2.3.4''], rebootRecommended = False\<rparr>"

definition server_v2 :: server_data where
  "server_v2 = \<lparr>vServerName = ''v2'', vServerNickname = ''web'', status = ''offline'',
     ips = [''5.6.7.8''], rebootRecommended = False\<rparr>"

text \<open>
  Two online servers that carry the same nickname \<open>web\<close>, and three web services: one
  lists the two servers of the specification's example, one lists the two servers named
  \<open>web\<close>, one answers the listing with an empty list.
\<close>

definition server_web1 :: server_data where
  "server_web1 = \<lparr>vServerName = ''v1'', vServerNickname = ''web'', status = ''online'',
     ips = [''1.2.3.4''], rebootRecommended = False\<rparr>"

definition server_web3 :: server_data where
  "server_web3 = \<lparr>vServerName = ''v3'', vServerNickname = ''web'', status = ''online'',
     ips = [''9.9.9.9''], rebootRecommended = True\<rparr>"

definition example_client :: "string \<Rightarrow> service" where
  "example_client url =
     \<lparr>getVServers = (\<lambda>loginName pw. Returns (Some [''v1'', ''v2''])),
      getVServerInformation = (\<lambda>loginName pw vservername language.
         if vservername = ''v1'' then Returns server_v1
         else if vservername = ''v2'' then Returns server_v2
         else Raises)\<rparr>"

definition web_client :: "string \<Rightarrow> service" where
  "web_client url =
     \<lparr>getVServers = (\<lambda>loginName pw. Returns (Some [''v1'', ''v3''])),
      getVServerInformation = (\<lambda>loginName pw vservername language.
         if vservername = ''v1'' then Returns server_web1
         else if vservername = ''v3'' then Returns server_web3
         else Raises)\<rparr>"

definition empty_list_client :: "string \<Rightarrow> service" where
  "empty_list_client url =
     \<lparr>getVServers = (\<lambda>loginName pw. Returns (Some [])),
      getVServerInformation = (\<lambda>loginName pw vservername language. Raises)\<rparr>"

section \<open>Properties\<close>

subsection \<open>The calls of \<^verbatim>\<open>_parse_server\<close>\<close>

lemma set_server_vars_calls:
  "set_server_vars n (server_vars r) inventory =
     inventory @
     [SetVariable n ''netcup_server_name'' (Str (vServerName r)),
      SetVariable n ''netcup_server_nickname'' (Str (vServerNickname r)),
      SetVariable n ''netcup_reboot_recommended'' (Bool (rebootRecommended r)),
      SetVariable n ''netcup_status'' (Str (status r))]"
  by (simp add: server_vars_def set_variable_def)

lemma parse_server_online:
  "status r = ''online'' \<Longrightarrow>
   parse_server opts r inventory =
     (case match_ansible_host_type opts r (servername opts r) (inventory @ [AddHost (servername opts r)]) of
        Inl e \<Rightarrow> (Inl e, inventory @ [AddHost (servername opts r)])
      | Inr inv2 \<Rightarrow>
          (Inr (), inv2 @
             [SetVariable (servername opts r) ''netcup_server_name'' (Str (vServerName r)),
              SetVariable (servername opts r) ''netcup_server_nickname'' (Str (vServerNickname r)),
              SetVariable (servername opts r) ''netcup_reboot_recommended'' (Bool (rebootRecommended r)),
              SetVariable (servername opts r) ''netcup_status'' (Str (status r)),
              AddChild (group_opt opts) (servername opts r)]))"
  by (simp add: parse_server_def Let_def add_host_def add_child_def set_server_vars_calls
           split: sum.splits)

lemma match_unknown:
  "ansible_host_type opts \<noteq> ''ip'' \<Longrightarrow> ansible_host_type opts \<noteq> ''name'' \<Longrightarrow>
   ansible_host_type opts \<noteq> ''suffix'' \<Longrightarrow>
   match_ansible_host_type opts r n inventory = Inr inventory"
  by (simp add: match_ansible_host_type_def)

lemma match_name:
  "ansible_host_type opts = ''name'' \<Longrightarrow>
   match_ansible_host_type opts r n inventory =
     Inr (inventory @ [SetVariable n ''ansible_host'' (Str n)])"
  by (simp add: match_ansible_host_type_def set_variable_def)

lemma match_ip_Nil:
  "ansible_host_type opts = ''ip'' \<or> ansible_host_type opts = ''suffix'' \<Longrightarrow> ips r = [] \<Longrightarrow>
   match_ansible_host_type opts r n inventory = Inl IndexError"
  by (auto simp add: match_ansible_host_type_def index0_def)

lemma match_ip_Cons:
  "ansible_host_type opts = ''ip'' \<or> ansible_host_type opts = ''suffix'' \<Longrightarrow>
   ips r = ip # others \<Longrightarrow>
   match_ansible_host_type opts r n inventory =
     Inr (inventory @ [SetVariable n ''ansible_host'' (Str ip)])"
  by (auto simp add: match_ansible_host_type_def index0_def set_variable_def)

subsection \<open>An unsupported address-selection mode\<close>

text \<open>
  The \<^verbatim>\<open>match\<close> of \<^verbatim>\<open>_parse_server\<close> has no case for a value outside the three
  choices, but it is never run on one: every set of options that the loading hands on
  has one of the three modes, and with such a mode the method is \<^verbatim>\<open>parse\<close> on those
  options.
\<close>

lemma loaded_mode_supported:
  "read_config_data config = Inr opts \<Longrightarrow>
   opts = config \<and> ansible_host_type opts \<in> {''ip'', ''name'', ''suffix''}"
  by (auto simp add: read_config_data_def ansible_host_type_choices_def split: if_splits)

lemma parse_config_supported:
  "ansible_host_type config \<in> {''ip'', ''name'', ''suffix''} \<Longrightarrow>
   parse_config ZClient config inventory = parse ZClient config inventory"
  by (auto simp add: parse_config_def read_config_data_def ansible_host_type_choices_def)



subsection \<open>The display name\<close>

text \<open>
  C2: for every record, prefix and suffix, the computed name is the prefix, then the
  nickname when it is not empty and the server name otherwise, then the suffix,
  concatenated with nothing in between. It is the name under which an online record
  is added to the inventory.
\<close>

theorem servername_concatenation:
  "servername opts r =
     (if vServerNickname r \<noteq> []
      then hostname_prefix opts @ vServerNickname r @ hostname_suffix opts
      else hostname_prefix opts @ vServerName r @ hostname_suffix opts) \<and>
   (status r = ''online'' \<longrightarrow>
      take (Suc (length inventory)) (snd (parse_server opts r inventory)) =
        inventory @ [AddHost (servername opts r)])"
  by (simp add: servername_def parse_server_online match_ansible_host_type_def
        set_variable_def index0_def split: sum.splits list.splits)

theorem servername_concatenation_witness:
  "servername (default_opts\<lparr>hostname_prefix := ''srv-'', hostname_suffix := ''.lan''\<rparr>) server_v2 =
     ''srv-web.lan'' \<and>
   servername (default_opts\<lparr>hostname_prefix := ''srv-'', hostname_suffix := ''.lan''\<rparr>) server_v1 =
     ''srv-v1.lan'' \<and>
   status server_v1 = ''online'' \<and>
   take (Suc 0) (snd (parse_server
       (default_opts\<lparr>hostname_prefix := ''srv-'', hostname_suffix := ''.lan''\<rparr>) server_v1 [])) =
     [AddHost ''srv-v1.lan'']"
  using servername_concatenation
      [of "default_opts\<lparr>hostname_prefix := ''srv-'', hostname_suffix := ''.lan''\<rparr>" server_v1 "[]"]
    servername_concatenation
      [of "default_opts\<lparr>hostname_prefix := ''srv-'', hostname_suffix := ''.lan''\<rparr>" server_v2 "[]"]
  by (simp add: default_opts_def server_v1_def server_v2_def)

subsection \<open>Records that are not online\<close>

text \<open>
  C3: a record whose status is not \<open>online\<close> is skipped: \<^verbatim>\<open>_parse_server\<close> returns
  without an error and has made no call on the inventory, so no host, variable or group
  membership is added and the contents of the sink are what they were.
\<close>

theorem parse_server_skips_not_online:
  "status r \<noteq> ''online'' \<Longrightarrow>
   parse_server opts r inventory = (Inr (), inventory) \<and>
   contents (snd (parse_server opts r inventory)) = contents inventory"
  by (simp add: parse_server_def)

theorem parse_server_skips_not_online_witness:
  "status server_v2 \<noteq> ''online'' \<and>
   parse_server default_opts server_v2 [] = (Inr (), []) \<and>
   contents (snd (parse_server default_opts server_v2 [])) = contents []"
  using parse_server_skips_not_online [of server_v2 default_opts "[]"]
  by (simp add: server_v2_def)

subsection \<open>The connection address\<close>

text \<open>
  C4: for every online record, the connection addresses that processing it sets are:
  in mode \<open>ip\<close> the first IP of the record, on the computed name; in mode \<open>name\<close>
  the computed name itself; in mode \<open>suffix\<close> the first IP again. A record with no
  IP has no primary IP, and then no address is set in the modes \<open>ip\<close> and
  \<open>suffix\<close>.
\<close>

theorem ansible_host_by_mode:
  assumes "status r = ''online''"
  shows "\<exists>calls. snd (parse_server opts r inventory) = inventory @ calls \<and>
    (ansible_host_type opts = ''ip'' \<longrightarrow>
       ansible_host_calls calls =
         (case ips r of [] \<Rightarrow> [] | ip # _ \<Rightarrow> [(servername opts r, Str ip)])) \<and>
    (ansible_host_type opts = ''name'' \<longrightarrow>
       ansible_host_calls calls = [(servername opts r, Str (servername opts r))]) \<and>
    (ansible_host_type opts = ''suffix'' \<longrightarrow>
       ansible_host_calls calls =
         (case ips r of [] \<Rightarrow> [] | ip # _ \<Rightarrow> [(servername opts r, Str ip)]))"
  using assms
  by (cases "ips r")
     (simp_all add: parse_server_online match_ansible_host_type_def set_variable_def index0_def)

theorem ansible_host_by_mode_witness:
  "status server_v1 = ''online'' \<and>
   (\<exists>calls. snd (parse_server default_opts server_v1 []) = calls \<and>
      ansible_host_calls calls = [(''v1'', Str ''1.2.3.4'')]) \<and>
   (\<exists>calls. snd (parse_server (default_opts\<lparr>ansible_host_type := ''name''\<rparr>) server_v1 []) = calls \<and>
      ansible_host_calls calls = [(''v1'', Str ''v1'')]) \<and>
   (\<exists>calls. snd (parse_server (default_opts\<lparr>ansible_host_type := ''suffix''\<rparr>) server_v1 []) = calls \<and>
      ansible_host_calls calls = [(''v1'', Str ''1.2.3.4'')])"
  using ansible_host_by_mode [of server_v1 default_opts "[]"]
    ansible_host_by_mode [of server_v1 "default_opts\<lparr>ansible_host_type := ''name''\<rparr>" "[]"]
    ansible_host_by_mode [of server_v1 "default_opts\<lparr>ansible_host_type := ''suffix''\<rparr>" "[]"]
  by (simp add: default_opts_def server_v1_def servername_def)

subsection \<open>The order of the calls\<close>

text \<open>
  C7, as the specification states it for every online record, fails: the online record
  \<open>v1\<close> without any IP, in the default mode \<open>ip\<close>, gets its host added and nothing
  else, because reading the first IP raises.
\<close>

theorem parse_server_call_order_counterexample:
  "status (server_v1\<lparr>ips := []\<rparr>) = ''online'' \<and>
   ansible_host_type default_opts = ''ip'' \<and>
   parse_server default_opts (server_v1\<lparr>ips := []\<rparr>) [] = (Inl IndexError, [AddHost ''v1''])"
  by (simp add: default_opts_def server_v1_def parse_server_online match_ip_Nil servername_def)

text \<open>
  C7, amended: for every online record for which an address is selected (mode
  \<open>name\<close>, or mode \<open>ip\<close> or \<open>suffix\<close> and a record with at least one IP),
  \<^verbatim>\<open>_parse_server\<close> makes exactly these calls, in this order: add the host; set
  \<open>ansible_host\<close>; set \<open>netcup_server_name\<close>, \<open>netcup_server_nickname\<close>,
  \<open>netcup_reboot_recommended\<close> and \<open>netcup_status\<close> to the record's own values; add
  the host as a child of the configured group.
\<close>

theorem parse_server_call_order:
  assumes "status r = ''online''"
    and "ansible_host_type opts = ''name'' \<or>
         (ansible_host_type opts = ''ip'' \<or> ansible_host_type opts = ''suffix'') \<and> ips r \<noteq> []"
  shows "parse_server opts r inventory =
     (Inr (), inventory @
        [AddHost (servername opts r),
         SetVariable (servername opts r) ''ansible_host''
           (if ansible_host_type opts = ''name'' then Str (servername opts r) else Str (hd (ips r))),
         SetVariable (servername opts r) ''netcup_server_name'' (Str (vServerName r)),
         SetVariable (servername opts r) ''netcup_server_nickname'' (Str (vServerNickname r)),
         SetVariable (servername opts r) ''netcup_reboot_recommended'' (Bool (rebootRecommended r)),
         SetVariable (servername opts r) ''netcup_status'' (Str (status r)),
         AddChild (group_opt opts) (servername opts r)])"
proof (cases "ansible_host_type opts = ''name''")
  case True
  with assms(1) show ?thesis
    by (simp add: parse_server_online match_name)
next
  case False
  with assms(2) have mode: "ansible_host_type opts = ''ip'' \<or> ansible_host_type opts = ''suffix''"
    and "ips r \<noteq> []" by auto
  then obtain ip others where ips: "ips r = ip # others"
    by (cases "ips r") auto
  from assms(1) False show ?thesis
    by (simp add: parse_server_online match_ip_Cons [OF mode ips] ips)
qed

theorem parse_server_call_order_witness:
  "status server_v1 = ''online'' \<and>
   (ansible_host_type default_opts = ''name'' \<or>
    (ansible_host_type default_opts = ''ip'' \<or> ansible_host_type default_opts = ''suffix'') \<and>
    ips server_v1 \<noteq> []) \<and>
   parse_server default_opts server_v1 [] =
     (Inr (),
      [AddHost ''v1'',
       SetVariable ''v1'' ''ansible_host'' (Str ''1.2.3.4''),
       SetVariable ''v1'' ''netcup_server_name'' (Str ''v1''),
       SetVariable ''v1'' ''netcup_server_nickname'' (Str []),
       SetVariable ''v1'' ''netcup_reboot_recommended'' (Bool False),
       SetVariable ''v1'' ''netcup_status'' (Str ''online''),
       AddChild ''netcup'' ''v1''])"
  using parse_server_call_order [of server_v1 default_opts "[]"]
  by (simp add: default_opts_def server_v1_def servername_def)

subsection \<open>The unguarded read of the first IP\<close>

text \<open>
  C9: in mode \<open>ip\<close> or \<open>suffix\<close>, processing an online record reads the first element
  of its IP list with no guard. With a non-empty list the read returns that element and
  processing succeeds; with an empty list the read raises \<^verbatim>\<open>IndexError\<close>, and the
  inventory is left with the host already added and nothing else.
\<close>

theorem parse_server_first_ip_unguarded:
  assumes "status r = ''online''"
    and "ansible_host_type opts = ''ip'' \<or> ansible_host_type opts = ''suffix''"
  shows "(ips r \<noteq> [] \<longrightarrow>
            index0 (ips r) = Inr (hd (ips r)) \<and> fst (parse_server opts r inventory) = Inr ()) \<and>
         (ips r = [] \<longrightarrow>
            index0 (ips r) = Inl IndexError \<and>
            parse_server opts r inventory =
              (Inl IndexError, inventory @ [AddHost (servername opts r)]))"
proof (cases "ips r")
  case Nil
  with assms show ?thesis
    by (simp add: parse_server_online match_ip_Nil index0_def)
next
  case (Cons ip others)
  with assms show ?thesis
    by (simp add: parse_server_online match_ip_Cons index0_def)
qed

theorem parse_server_first_ip_unguarded_witness:
  "status server_v1 = ''online'' \<and>
   (ansible_host_type default_opts = ''ip'' \<or> ansible_host_type default_opts = ''suffix'') \<and>
   index0 (ips server_v1) = Inr ''1.2.3.4'' \<and>
   fst (parse_server default_opts server_v1 []) = Inr () \<and>
   index0 (ips (server_v1\<lparr>ips := []\<rparr>)) = Inl IndexError \<and>
   parse_server default_opts (server_v1\<lparr>ips := []\<rparr>) [] = (Inl IndexError, [AddHost ''v1''])"
  using parse_server_first_ip_unguarded [of server_v1 default_opts "[]"]
    parse_server_first_ip_unguarded [of "server_v1\<lparr>ips := []\<rparr>" default_opts "[]"]
  by (simp add: default_opts_def server_v1_def servername_def)

subsection \<open>An empty listing\<close>

text \<open>
  C6: when the listing call succeeds with an empty list, \<^verbatim>\<open>parse\<close> raises an
  \<^verbatim>\<open>AnsibleParserError\<close> and has made no call on the inventory, not even the
  creation of the group. The builder itself (lines 269 to 272) accepts an empty list:
  it creates the group, adds no host and raises nothing.
\<close>

theorem empty_listing_rejected_by_parse:
  "(getVServers (ZClient (wsdl_url opts)) (customer_id opts) (password opts) = Returns (Some []) \<longrightarrow>
      parse ZClient opts inventory =
        (Inl (AnsibleParserError ''Did not receive a server list from Webservice.''), inventory)) \<and>
   build ZClient opts [] inventory = (Inr (), inventory @ [AddGroup (group_opt opts)])"
  by (simp add: parse_def get_server_list_def build_def add_group_def)

theorem empty_listing_rejected_by_parse_witness:
  "getVServers (empty_list_client (wsdl_url default_opts)) (customer_id default_opts)
     (password default_opts) = Returns (Some []) \<and>
   parse empty_list_client default_opts [] =
     (Inl (AnsibleParserError ''Did not receive a server list from Webservice.''), []) \<and>
   build empty_list_client default_opts [] [] = (Inr (), [AddGroup ''netcup''])"
  using empty_listing_rejected_by_parse [of empty_list_client default_opts "[]"]
  by (simp add: empty_list_client_def default_opts_def)

subsection \<open>The option \<open>ansible_host_suffix\<close>\<close>

lemma servername_suffix_irrelevant:
  "servername (opts\<lparr>ansible_host_suffix := x\<rparr>) r = servername opts r"
  by (simp add: servername_def)

lemma match_suffix_irrelevant:
  "match_ansible_host_type (opts\<lparr>ansible_host_suffix := x\<rparr>) r n inventory =
   match_ansible_host_type opts r n inventory"
  by (simp add: match_ansible_host_type_def)

lemma parse_server_suffix_irrelevant:
  "parse_server (opts\<lparr>ansible_host_suffix := x\<rparr>) r inventory = parse_server opts r inventory"
  by (simp add: parse_server_def Let_def match_suffix_irrelevant servername_suffix_irrelevant
        split: sum.splits)

lemma parse_servers_suffix_irrelevant:
  "parse_servers ZClient (opts\<lparr>ansible_host_suffix := x\<rparr>) server_list inventory =
   parse_servers ZClient opts server_list inventory"
  by (induction server_list arbitrary: inventory)
     (simp_all add: parse_server_suffix_irrelevant split: sum.splits prod.splits)

lemma build_suffix_irrelevant:
  "build ZClient (opts\<lparr>ansible_host_suffix := x\<rparr>) server_list inventory =
   build ZClient opts server_list inventory"
  by (simp add: build_def parse_servers_suffix_irrelevant)

lemma parse_suffix_irrelevant:
  "parse ZClient (opts\<lparr>ansible_host_suffix := x\<rparr>) inventory = parse ZClient opts inventory"
  by (simp add: parse_def build_suffix_irrelevant split: sum.splits option.splits list.splits)

text \<open>
  C8: the option \<open>ansible_host_suffix\<close> is never read. Two configurations that differ
  only in its value give the same result, the same calls on the inventory and so the
  same contents of the sink, for \<^verbatim>\<open>parse\<close>, for the builder and for
  \<^verbatim>\<open>_parse_server\<close>, in every mode, \<open>suffix\<close> included.
\<close>

theorem ansible_host_suffix_unused:
  "parse ZClient (opts\<lparr>ansible_host_suffix := x\<rparr>) inventory = parse ZClient opts inventory \<and>
   build ZClient (opts\<lparr>ansible_host_suffix := x\<rparr>) server_list inventory =
     build ZClient opts server_list inventory \<and>
   parse_server (opts\<lparr>ansible_host_suffix := x\<rparr>) r inventory = parse_server opts r inventory \<and>
   contents (snd (parse ZClient (opts\<lparr>ansible_host_suffix := x\<rparr>) inventory)) =
     contents (snd (parse ZClient opts inventory))"
  by (simp add: parse_suffix_irrelevant build_suffix_irrelevant parse_server_suffix_irrelevant)

subsection \<open>The contents of the sink after a run\<close>

lemma contents_append: "contents (xs @ ys) = foldl apply_call (contents xs) ys"
  by (simp add: contents_def)

lemma dom_hosts_apply_call:
  "dom (hosts (apply_call s c)) = dom (hosts s) \<union> (case c of AddHost h \<Rightarrow> {h} | _ \<Rightarrow> {})"
  by (cases c) (auto split: option.splits)

lemma dom_hosts_foldl:
  "dom (hosts (foldl apply_call s cs)) = dom (hosts s) \<union> {h. AddHost h \<in> set cs}"
  by (induction cs arbitrary: s) (auto simp: dom_hosts_apply_call split: sink_call.splits)

lemma dom_groups_apply_call:
  "dom (groups (apply_call s c)) = dom (groups s) \<union> (case c of AddGroup g \<Rightarrow> {g} | _ \<Rightarrow> {})"
  by (cases c) (auto split: option.splits)

lemma dom_groups_foldl:
  "dom (groups (foldl apply_call s cs)) = dom (groups s) \<union> {g. AddGroup g \<in> set cs}"
  by (induction cs arbitrary: s) (auto simp: dom_groups_apply_call split: sink_call.splits)

lemma members_apply_call:
  "groups s g = Some m \<Longrightarrow>
   groups (apply_call s c) g = Some (m \<union> (case c of AddChild g' h \<Rightarrow> if g' = g then {h} else {} | _ \<Rightarrow> {}))"
  by (cases c) (auto split: option.splits)

lemma members_foldl:
  "groups s g = Some m \<Longrightarrow>
   groups (foldl apply_call s cs) g = Some (m \<union> {h. AddChild g h \<in> set cs})"
proof (induction cs arbitrary: s m)
  case Nil
  then show ?case by simp
next
  case (Cons c cs)
  from members_apply_call [OF Cons.prems, of c]
  have "groups (foldl apply_call (apply_call s c) cs) g =
    Some ((m \<union> (case c of AddChild g' h \<Rightarrow> if g' = g then {h} else {} | _ \<Rightarrow> {})) \<union>
      {h. AddChild g h \<in> set cs})"
    by (rule Cons.IH)
  then show ?case
    by (cases c) (auto simp: Un_assoc)
qed

lemma parse_server_frame:
  "parse_server opts r inventory =
     (fst (parse_server opts r []), inventory @ snd (parse_server opts r []))"
  by (simp add: parse_server_def Let_def match_ansible_host_type_def index0_def add_host_def
        set_variable_def add_child_def set_server_vars_calls split: list.splits)

lemma parse_servers_ok:
  "parse_servers ZClient opts server_list inventory = (Inr (), inventory') \<Longrightarrow>
   \<exists>recs. map (get_server_info ZClient (wsdl_url opts) (customer_id opts) (password opts)) server_list =
            map Inr recs \<and>
          inventory' = inventory @ concat (map (\<lambda>r. snd (parse_server opts r [])) recs) \<and>
          (\<forall>r \<in> set recs. fst (parse_server opts r []) = Inr ())"
proof (induction server_list arbitrary: inventory)
  case Nil
  then show ?case by simp
next
  case (Cons server rest)
  from Cons.prems obtain info where
    info: "get_server_info ZClient (wsdl_url opts) (customer_id opts) (password opts) server = Inr info"
    by (auto split: sum.splits)
  from Cons.prems info obtain mid where
    mid: "parse_server opts info inventory = (Inr (), mid)"
    and rest: "parse_servers ZClient opts rest mid = (Inr (), inventory')"
    by (auto split: sum.splits prod.splits)
  from mid have ok: "fst (parse_server opts info []) = Inr ()"
    and mid_eq: "mid = inventory @ snd (parse_server opts info [])"
    using parse_server_frame [of opts info inventory] by simp_all
  from Cons.IH [OF rest] obtain recs where
    recs: "map (get_server_info ZClient (wsdl_url opts) (customer_id opts) (password opts)) rest =
            map Inr recs"
    and inv: "inventory' = mid @ concat (map (\<lambda>r. snd (parse_server opts r [])) recs)"
    and oks: "\<forall>r \<in> set recs. fst (parse_server opts r []) = Inr ()"
    by blast
  show ?case
  proof (intro exI conjI)
    show "map (get_server_info ZClient (wsdl_url opts) (customer_id opts) (password opts)) (server # rest) =
            map Inr (info # recs)"
      using info recs by simp
    show "inventory' = inventory @ concat (map (\<lambda>r. snd (parse_server opts r [])) (info # recs))"
      using inv mid_eq by simp
    show "\<forall>r \<in> set (info # recs). fst (parse_server opts r []) = Inr ()"
      using ok oks by simp
  qed
qed

lemma record_calls_AddHost:
  "{h. AddHost h \<in> set (snd (parse_server opts r []))} =
     (if status r = ''online'' then {servername opts r} else {})"
  by (auto simp add: parse_server_def Let_def match_ansible_host_type_def index0_def add_host_def
        set_variable_def add_child_def set_server_vars_calls split: list.splits)

lemma record_calls_AddGroup:
  "AddGroup g \<notin> set (snd (parse_server opts r []))"
  by (auto simp add: parse_server_def Let_def match_ansible_host_type_def index0_def add_host_def
        set_variable_def add_child_def set_server_vars_calls split: list.splits)

lemma record_calls_AddChild:
  "fst (parse_server opts r []) = Inr () \<Longrightarrow>
   {h. AddChild g h \<in> set (snd (parse_server opts r []))} =
     (if status r = ''online'' \<and> g = group_opt opts then {servername opts r} else {})"
  by (auto simp add: parse_server_def Let_def match_ansible_host_type_def index0_def add_host_def
        set_variable_def add_child_def set_server_vars_calls split: list.splits if_splits)

lemma contents_after_group:
  assumes oks: "\<forall>r \<in> set recs. fst (parse_server opts r []) = Inr ()"
    and inv: "inventory = AddGroup (group_opt opts) # concat (map (\<lambda>r. snd (parse_server opts r [])) recs)"
  shows "dom (hosts (contents inventory)) = servername opts ` {r \<in> set recs. status r = ''online''}"
    and "dom (groups (contents inventory)) = {group_opt opts}"
    and "groups (contents inventory) (group_opt opts) =
           Some (servername opts ` {r \<in> set recs. status r = ''online''})"
proof -
  define rest where "rest = concat (map (\<lambda>r. snd (parse_server opts r [])) recs)"
  define s0 where "s0 = apply_call empty_sink (AddGroup (group_opt opts))"
  have c: "contents inventory = foldl apply_call s0 rest"
    by (simp add: inv contents_def rest_def s0_def)
  have h0: "dom (hosts s0) = {}"
    by (simp add: s0_def empty_sink_def)
  have g0: "groups s0 (group_opt opts) = Some {}"
    by (simp add: s0_def empty_sink_def)
  have dg0: "dom (groups s0) = {group_opt opts}"
    by (simp add: s0_def empty_sink_def)
  have "{h. AddHost h \<in> set rest} = (\<Union>r \<in> set recs. {h. AddHost h \<in> set (snd (parse_server opts r []))})"
    by (auto simp add: rest_def)
  also have "\<dots> = (\<Union>r \<in> set recs. if status r = ''online'' then {servername opts r} else {})"
    by (simp only: record_calls_AddHost)
  also have "\<dots> = servername opts ` {r \<in> set recs. status r = ''online''}"
    by (auto split: if_splits)
  finally have hs: "{h. AddHost h \<in> set rest} = servername opts ` {r \<in> set recs. status r = ''online''}" .
  show "dom (hosts (contents inventory)) = servername opts ` {r \<in> set recs. status r = ''online''}"
    by (simp only: c dom_hosts_foldl h0 hs Un_empty_left)
  have gs: "{g. AddGroup g \<in> set rest} = {}"
    by (auto simp add: rest_def record_calls_AddGroup)
  show "dom (groups (contents inventory)) = {group_opt opts}"
    by (simp only: c dom_groups_foldl dg0 gs Un_empty_right)
  have "{h. AddChild (group_opt opts) h \<in> set rest} =
          (\<Union>r \<in> set recs. {h. AddChild (group_opt opts) h \<in> set (snd (parse_server opts r []))})"
    by (auto simp add: rest_def)
  also have "\<dots> = (\<Union>r \<in> set recs. if status r = ''online'' then {servername opts r} else {})"
    using oks by (simp add: record_calls_AddChild)
  also have "\<dots> = servername opts ` {r \<in> set recs. status r = ''online''}"
    by (auto split: if_splits)
  finally have cs: "{h. AddChild (group_opt opts) h \<in> set rest} =
      servername opts ` {r \<in> set recs. status r = ''online''}" .
  show "groups (contents inventory) (group_opt opts) =
           Some (servername opts ` {r \<in> set recs. status r = ''online''})"
    by (simp only: c members_foldl [OF g0] cs Un_empty_left)
qed

lemma build_ok:
  assumes "build ZClient opts server_list [] = (Inr (), inventory)"
  shows "\<exists>recs. map (get_server_info ZClient (wsdl_url opts) (customer_id opts) (password opts)) server_list =
            map Inr recs \<and>
          inventory = AddGroup (group_opt opts) # concat (map (\<lambda>r. snd (parse_server opts r [])) recs) \<and>
          (\<forall>r \<in> set recs. fst (parse_server opts r []) = Inr ())"
  using parse_servers_ok [of ZClient opts server_list "[AddGroup (group_opt opts)]" inventory] assms
  by (simp add: build_def add_group_def)

lemma online_names_set:
  "set (map (servername opts) (filter (\<lambda>r. status r = ''online'') recs)) =
   servername opts ` {r \<in> set recs. status r = ''online''}"
  by auto


lemma only_group:
  assumes "dom (groups s) = {g}" and "groups s g = Some m" and "h \<in> m"
  shows "groups_of s h = {g}"
proof (rule set_eqI)
  fix g'
  show "g' \<in> groups_of s h \<longleftrightarrow> g' \<in> {g}"
  proof
    assume "g' \<in> groups_of s h"
    then obtain m' where "groups s g' = Some m'"
      unfolding groups_of_def by blast
    then have "g' \<in> dom (groups s)" by (rule domI)
    with assms(1) show "g' \<in> {g}" by simp
  next
    assume "g' \<in> {g}"
    then have "g' = g" by simp
    with assms(2) assms(3) show "g' \<in> groups_of s h"
      unfolding groups_of_def by blast
  qed
qed

lemma dom_hosts_contents:
  "dom (hosts (contents inventory)) = {h. AddHost h \<in> set inventory}"
  by (simp add: contents_def dom_hosts_foldl empty_sink_def)

lemma build_web:
  "build web_client default_opts [''v1'', ''v3''] [] =
     (Inr (),
      [AddGroup ''netcup'',
       AddHost ''web'',
       SetVariable ''web'' ''ansible_host'' (Str ''1.2.3.4''),
       SetVariable ''web'' ''netcup_server_name'' (Str ''v1''),
       SetVariable ''web'' ''netcup_server_nickname'' (Str ''web''),
       SetVariable ''web'' ''netcup_reboot_recommended'' (Bool False),
       SetVariable ''web'' ''netcup_status'' (Str ''online''),
       AddChild ''netcup'' ''web'',
       AddHost ''web'',
       SetVariable ''web'' ''ansible_host'' (Str ''9.9.9.9''),
       SetVariable ''web'' ''netcup_server_name'' (Str ''v3''),
       SetVariable ''web'' ''netcup_server_nickname'' (Str ''web''),
       SetVariable ''web'' ''netcup_reboot_recommended'' (Bool True),
       SetVariable ''web'' ''netcup_status'' (Str ''online''),
       AddChild ''netcup'' ''web''])"
  by (simp add: build_def add_group_def get_server_info_def web_client_def default_opts_def
        server_web1_def server_web3_def parse_server_online match_ansible_host_type_def
        index0_def set_variable_def servername_def)

lemma fetch_web:
  "map (get_server_info web_client (wsdl_url default_opts) (customer_id default_opts)
          (password default_opts)) [''v1'', ''v3''] = map Inr [server_web1, server_web3]"
  by (simp add: get_server_info_def web_client_def)

text \<open>
  C5, as the specification states it, fails: the two listed servers are both online and
  both have the nickname \<open>web\<close>, the build succeeds, and the sink holds one host
  entry for the two online records.
\<close>

theorem build_one_entry_per_online_record_counterexample:
  "fst (build web_client default_opts [''v1'', ''v3''] []) = Inr () \<and>
   map (get_server_info web_client (wsdl_url default_opts) (customer_id default_opts)
          (password default_opts)) [''v1'', ''v3''] = [Inr server_web1, Inr server_web3] \<and>
   status server_web1 = ''online'' \<and> status server_web3 = ''online'' \<and>
   card (dom (hosts (contents (snd (build web_client default_opts [''v1'', ''v3''] []))))) = 1"
proof -
  have "dom (hosts (contents (snd (build web_client default_opts [''v1'', ''v3''] [])))) = {''web''}"
    by (auto simp add: build_web dom_hosts_contents)
  then show ?thesis
    using fetch_web by (simp add: build_web server_web1_def server_web3_def)
qed

text \<open>
  C5, amended: after a successful build over any list of servers, starting from an
  empty inventory, the host entries of the sink are exactly the computed names of the
  online records, one entry for each distinct name, so exactly one for each online
  record when their names are pairwise distinct. Every entry belongs to the configured
  group and to no other, and the configured group exists, created by the first call,
  also when no host was added.
\<close>

theorem build_postcondition:
  assumes "build ZClient opts server_list [] = (Inr (), inventory)"
  shows "\<exists>recs.
    map (get_server_info ZClient (wsdl_url opts) (customer_id opts) (password opts)) server_list =
      map Inr recs \<and>
    dom (hosts (contents inventory)) = servername opts ` {r \<in> set recs. status r = ''online''} \<and>
    (\<forall>h \<in> dom (hosts (contents inventory)). groups_of (contents inventory) h = {group_opt opts}) \<and>
    group_opt opts \<in> dom (groups (contents inventory)) \<and>
    hd inventory = AddGroup (group_opt opts) \<and>
    (distinct (map (servername opts) (filter (\<lambda>r. status r = ''online'') recs)) \<longrightarrow>
       card (dom (hosts (contents inventory))) = length (filter (\<lambda>r. status r = ''online'') recs))"
proof -
  from build_ok [OF assms] obtain recs where
    fetched: "map (get_server_info ZClient (wsdl_url opts) (customer_id opts) (password opts)) server_list =
      map Inr recs"
    and inv: "inventory = AddGroup (group_opt opts) # concat (map (\<lambda>r. snd (parse_server opts r [])) recs)"
    and oks: "\<forall>r \<in> set recs. fst (parse_server opts r []) = Inr ()"
    by blast
  note c = contents_after_group [OF oks inv]
  have members: "\<forall>h \<in> dom (hosts (contents inventory)). groups_of (contents inventory) h = {group_opt opts}"
  proof
    fix h assume "h \<in> dom (hosts (contents inventory))"
    then have "h \<in> servername opts ` {r \<in> set recs. status r = ''online''}"
      by (simp only: c(1))
    with c(2) c(3) show "groups_of (contents inventory) h = {group_opt opts}"
      by (rule only_group)
  qed
  have grp: "group_opt opts \<in> dom (groups (contents inventory))"
    by (simp add: c(2))
  have first: "hd inventory = AddGroup (group_opt opts)"
    by (simp add: inv)
  have count: "distinct (map (servername opts) (filter (\<lambda>r. status r = ''online'') recs)) \<longrightarrow>
       card (dom (hosts (contents inventory))) = length (filter (\<lambda>r. status r = ''online'') recs)"
  proof
    assume d: "distinct (map (servername opts) (filter (\<lambda>r. status r = ''online'') recs))"
    have "card (dom (hosts (contents inventory))) =
        card (set (map (servername opts) (filter (\<lambda>r. status r = ''online'') recs)))"
      by (simp only: c(1) online_names_set)
    also have "\<dots> = length (map (servername opts) (filter (\<lambda>r. status r = ''online'') recs))"
      using d by (rule distinct_card)
    finally show "card (dom (hosts (contents inventory))) = length (filter (\<lambda>r. status r = ''online'') recs)"
      by simp
  qed
  show ?thesis
    by (rule exI [of _ recs]) (intro conjI fetched c(1) members grp first count)
qed

theorem build_postcondition_witness:
  "build example_client default_opts [''v1'', ''v2''] [] =
     (Inr (),
      [AddGroup ''netcup'',
       AddHost ''v1'',
       SetVariable ''v1'' ''ansible_host'' (Str ''1.2.3.4''),
       SetVariable ''v1'' ''netcup_server_name'' (Str ''v1''),
       SetVariable ''v1'' ''netcup_server_nickname'' (Str []),
       SetVariable ''v1'' ''netcup_reboot_recommended'' (Bool False),
       SetVariable ''v1'' ''netcup_status'' (Str ''online''),
       AddChild ''netcup'' ''v1'']) \<and>
   (\<exists>recs.
      map (get_server_info example_client (wsdl_url default_opts) (customer_id default_opts)
             (password default_opts)) [''v1'', ''v2''] = map Inr recs \<and>
      dom (hosts (contents
          [AddGroup ''netcup'',
           AddHost ''v1'',
           SetVariable ''v1'' ''ansible_host'' (Str ''1.2.3.4''),
           SetVariable ''v1'' ''netcup_server_name'' (Str ''v1''),
           SetVariable ''v1'' ''netcup_server_nickname'' (Str []),
           SetVariable ''v1'' ''netcup_reboot_recommended'' (Bool False),
           SetVariable ''v1'' ''netcup_status'' (Str ''online''),
           AddChild ''netcup'' ''v1''])) =
        servername default_opts ` {r \<in> set recs. status r = ''online''} \<and>
      (\<forall>h \<in> dom (hosts (contents
          [AddGroup ''netcup'',
           AddHost ''v1'',
           SetVariable ''v1'' ''ansible_host'' (Str ''1.2.3.4''),
           SetVariable ''v1'' ''netcup_server_name'' (Str ''v1''),
           SetVariable ''v1'' ''netcup_server_nickname'' (Str []),
           SetVariable ''v1'' ''netcup_reboot_recommended'' (Bool False),
           SetVariable ''v1'' ''netcup_status'' (Str ''online''),
           AddChild ''netcup'' ''v1''])).
         groups_of (contents
          [AddGroup ''netcup'',
           AddHost ''v1'',
           SetVariable ''v1'' ''ansible_host'' (Str ''1.2.3.4''),
           SetVariable ''v1'' ''netcup_server_name'' (Str ''v1''),
           SetVariable ''v1'' ''netcup_server_nickname'' (Str []),
           SetVariable ''v1'' ''netcup_reboot_recommended'' (Bool False),
           SetVariable ''v1'' ''netcup_status'' (Str ''online''),
           AddChild ''netcup'' ''v1'']) h = {group_opt default_opts}) \<and>
      group_opt default_opts \<in> dom (groups (contents
          [AddGroup ''netcup'',
           AddHost ''v1'',
           SetVariable ''v1'' ''ansible_host'' (Str ''1.2.3.4''),
           SetVariable ''v1'' ''netcup_server_name'' (Str ''v1''),
           SetVariable ''v1'' ''netcup_server_nickname'' (Str []),
           SetVariable ''v1'' ''netcup_reboot_recommended'' (Bool False),
           SetVariable ''v1'' ''netcup_status'' (Str ''online''),
           AddChild ''netcup'' ''v1''])) \<and>
      hd [AddGroup ''netcup'',
           AddHost ''v1'',
           SetVariable ''v1'' ''ansible_host'' (Str ''1.2.3.4''),
           SetVariable ''v1'' ''netcup_server_name'' (Str ''v1''),
           SetVariable ''v1'' ''netcup_server_nickname'' (Str []),
           SetVariable ''v1'' ''netcup_reboot_recommended'' (Bool False),
           SetVariable ''v1'' ''netcup_status'' (Str ''online''),
           AddChild ''netcup'' ''v1''] = AddGroup (group_opt default_opts) \<and>
      (distinct (map (servername default_opts) (filter (\<lambda>r. status r = ''online'') recs)) \<longrightarrow>
         card (dom (hosts (contents
          [AddGroup ''netcup'',
           AddHost ''v1'',
           SetVariable ''v1'' ''ansible_host'' (Str ''1.2.3.4''),
           SetVariable ''v1'' ''netcup_server_name'' (Str ''v1''),
           SetVariable ''v1'' ''netcup_server_nickname'' (Str []),
           SetVariable ''v1'' ''netcup_reboot_recommended'' (Bool False),
           SetVariable ''v1'' ''netcup_status'' (Str ''online''),
           AddChild ''netcup'' ''v1'']))) =
         length (filter (\<lambda>r. status r = ''online'') recs)))"
proof -
  have run: "build example_client default_opts [''v1'', ''v2''] [] =
     (Inr (),
      [AddGroup ''netcup'',
       AddHost ''v1'',
       SetVariable ''v1'' ''ansible_host'' (Str ''1.2.3.4''),
       SetVariable ''v1'' ''netcup_server_name'' (Str ''v1''),
       SetVariable ''v1'' ''netcup_server_nickname'' (Str []),
       SetVariable ''v1'' ''netcup_reboot_recommended'' (Bool False),
       SetVariable ''v1'' ''netcup_status'' (Str ''online''),
       AddChild ''netcup'' ''v1''])"
    by (simp add: build_def add_group_def get_server_info_def example_client_def default_opts_def
          server_v1_def server_v2_def parse_server_def Let_def match_ansible_host_type_def
          index0_def set_variable_def add_host_def add_child_def servername_def server_vars_def)
  show ?thesis
    by (rule conjI [OF run build_postcondition [OF run]])
qed

subsection \<open>Two online records with one name\<close>

lemma hosts_AddChild: "hosts (apply_call s (AddChild g h)) = hosts s"
  by (simp split: option.splits)

lemma hosts_AddHost: "\<exists>m. hosts (apply_call s (AddHost n)) n = Some m"
  by (cases "hosts s n") simp_all

lemma hosts_SetVariable:
  "hosts s n = Some m \<Longrightarrow> hosts (apply_call s (SetVariable n k v)) n = Some (m(k \<mapsto> v))"
  by simp

lemma netcup_vars_written:
  assumes "hosts s n = Some m"
  shows "hosts (foldl apply_call s
           [SetVariable n ''netcup_server_name'' v1,
            SetVariable n ''netcup_server_nickname'' v2,
            SetVariable n ''netcup_reboot_recommended'' v3,
            SetVariable n ''netcup_status'' v4,
            AddChild g n]) n =
         Some (m(''netcup_server_name'' \<mapsto> v1, ''netcup_server_nickname'' \<mapsto> v2,
                 ''netcup_reboot_recommended'' \<mapsto> v3, ''netcup_status'' \<mapsto> v4))"
proof -
  note s1 = hosts_SetVariable [OF assms, of "''netcup_server_name''" v1]
  note s2 = hosts_SetVariable [OF s1, of "''netcup_server_nickname''" v2]
  note s3 = hosts_SetVariable [OF s2, of "''netcup_reboot_recommended''" v3]
  note s4 = hosts_SetVariable [OF s3, of "''netcup_status''" v4]
  show ?thesis
    by (simp only: foldl_Cons foldl_Nil hosts_AddChild s4)
qed

lemma host_entry_after:
  assumes on: "status r = ''online''"
    and ok: "parse_server opts r inventory = (Inr (), inventory')"
  shows "\<exists>vars. hosts (contents inventory') (servername opts r) = Some vars \<and> carries opts r vars"
proof -
  define n where "n = servername opts r"
  define s1 where "s1 = apply_call (contents inventory) (AddHost n)"
  define tail where "tail =
        [SetVariable n ''netcup_server_name'' (Str (vServerName r)),
         SetVariable n ''netcup_server_nickname'' (Str (vServerNickname r)),
         SetVariable n ''netcup_reboot_recommended'' (Bool (rebootRecommended r)),
         SetVariable n ''netcup_status'' (Str (status r)),
         AddChild (group_opt opts) n]"
  obtain m0 where m0: "hosts s1 n = Some m0"
    unfolding s1_def using hosts_AddHost by blast
  consider (name) "ansible_host_type opts = ''name''"
    | (ip) "ansible_host_type opts = ''ip'' \<or> ansible_host_type opts = ''suffix''"
    | (other) "ansible_host_type opts \<noteq> ''name''" "ansible_host_type opts \<noteq> ''ip''"
        "ansible_host_type opts \<noteq> ''suffix''"
    by blast
  then show ?thesis
  proof cases
    case name
    from ok on name have inv': "inventory' =
        inventory @ AddHost n # SetVariable n ''ansible_host'' (Str n) # tail"
      by (simp add: parse_server_online match_name n_def tail_def)
    have c: "contents inventory' =
        foldl apply_call (apply_call s1 (SetVariable n ''ansible_host'' (Str n))) tail"
      by (simp add: inv' contents_append s1_def)
    note a = hosts_SetVariable [OF m0, of "''ansible_host''" "Str n"]
    have "hosts (contents inventory') n =
        Some (m0(''ansible_host'' \<mapsto> Str n,
                 ''netcup_server_name'' \<mapsto> Str (vServerName r),
                 ''netcup_server_nickname'' \<mapsto> Str (vServerNickname r),
                 ''netcup_reboot_recommended'' \<mapsto> Bool (rebootRecommended r),
                 ''netcup_status'' \<mapsto> Str (status r)))"
      unfolding c tail_def by (rule netcup_vars_written [OF a])
    with name show ?thesis
      by (simp add: carries_def n_def)
  next
    case ip
    with ok on obtain ip0 others where ips: "ips r = ip0 # others"
      by (cases "ips r") (simp_all add: parse_server_online match_ip_Nil)
    from ok on have inv': "inventory' =
        inventory @ AddHost n # SetVariable n ''ansible_host'' (Str ip0) # tail"
      by (simp add: parse_server_online match_ip_Cons [OF ip ips] n_def tail_def)
    have c: "contents inventory' =
        foldl apply_call (apply_call s1 (SetVariable n ''ansible_host'' (Str ip0))) tail"
      by (simp add: inv' contents_append s1_def)
    note a = hosts_SetVariable [OF m0, of "''ansible_host''" "Str ip0"]
    have "hosts (contents inventory') n =
        Some (m0(''ansible_host'' \<mapsto> Str ip0,
                 ''netcup_server_name'' \<mapsto> Str (vServerName r),
                 ''netcup_server_nickname'' \<mapsto> Str (vServerNickname r),
                 ''netcup_reboot_recommended'' \<mapsto> Bool (rebootRecommended r),
                 ''netcup_status'' \<mapsto> Str (status r)))"
      unfolding c tail_def by (rule netcup_vars_written [OF a])
    with ip ips show ?thesis
      by (auto simp add: carries_def n_def)
  next
    case other
    from ok on other have inv': "inventory' = inventory @ AddHost n # tail"
      by (simp add: parse_server_online match_unknown n_def tail_def)
    have c: "contents inventory' = foldl apply_call s1 tail"
      by (simp add: inv' contents_append s1_def)
    have "hosts (contents inventory') n =
        Some (m0(''netcup_server_name'' \<mapsto> Str (vServerName r),
                 ''netcup_server_nickname'' \<mapsto> Str (vServerNickname r),
                 ''netcup_reboot_recommended'' \<mapsto> Bool (rebootRecommended r),
                 ''netcup_status'' \<mapsto> Str (status r)))"
      unfolding c tail_def by (rule netcup_vars_written [OF m0])
    with other show ?thesis
      by (simp add: carries_def n_def)
  qed
qed

lemma dom_hosts_after:
  "dom (hosts (contents (snd (parse_server opts r inventory)))) =
     dom (hosts (contents inventory)) \<union> (if status r = ''online'' then {servername opts r} else {})"
proof -
  have "snd (parse_server opts r inventory) = inventory @ snd (parse_server opts r [])"
    using parse_server_frame [of opts r inventory] by simp
  then show ?thesis
    by (simp only: contents_append dom_hosts_foldl record_calls_AddHost)
qed

text \<open>
  C10: computed names are not unique. When two online records of a run have the same
  computed name, processing the second adds no host entry: its variables are written
  into the entry of the first, which held the first record's values and now holds the
  second's. A successful build in which two online records share a name therefore
  leaves fewer host entries in the sink than there are online records.
\<close>

theorem duplicate_names_share_host_entry:
  "(status r1 = ''online'' \<and> status r2 = ''online'' \<and>
    servername opts r1 = servername opts r2 \<and>
    parse_server opts r1 inv0 = (Inr (), inv1) \<and>
    parse_server opts r2 (inv1 @ between) = (Inr (), inv2) \<longrightarrow>
      (\<exists>vars. hosts (contents inv1) (servername opts r1) = Some vars \<and> carries opts r1 vars) \<and>
      dom (hosts (contents inv2)) = dom (hosts (contents (inv1 @ between))) \<and>
      (\<exists>vars. hosts (contents inv2) (servername opts r1) = Some vars \<and> carries opts r2 vars)) \<and>
   (build ZClient opts server_list [] = (Inr (), inventory) \<and>
    map (get_server_info ZClient (wsdl_url opts) (customer_id opts) (password opts)) server_list =
      map Inr recs \<and>
    \<not> distinct (map (servername opts) (filter (\<lambda>r. status r = ''online'') recs)) \<longrightarrow>
      card (dom (hosts (contents inventory))) < length (filter (\<lambda>r. status r = ''online'') recs))"
proof (intro conjI impI)
  assume a: "status r1 = ''online'' \<and> status r2 = ''online'' \<and>
    servername opts r1 = servername opts r2 \<and>
    parse_server opts r1 inv0 = (Inr (), inv1) \<and>
    parse_server opts r2 (inv1 @ between) = (Inr (), inv2)"
  then have on1: "status r1 = ''online''" and on2: "status r2 = ''online''"
    and same: "servername opts r1 = servername opts r2"
    and p1: "parse_server opts r1 inv0 = (Inr (), inv1)"
    and p2: "parse_server opts r2 (inv1 @ between) = (Inr (), inv2)"
    by simp_all
  from host_entry_after [OF on1 p1]
  show "\<exists>vars. hosts (contents inv1) (servername opts r1) = Some vars \<and> carries opts r1 vars" .
  have "servername opts r1 \<in> dom (hosts (contents inv1))"
    using dom_hosts_after [of opts r1 inv0] on1 p1 by simp
  then have there: "servername opts r2 \<in> dom (hosts (contents (inv1 @ between)))"
    by (simp add: same contents_append dom_hosts_foldl)
  have "dom (hosts (contents inv2)) =
      dom (hosts (contents (inv1 @ between))) \<union> {servername opts r2}"
    using dom_hosts_after [of opts r2 "inv1 @ between"] on2 p2 by simp
  with there show "dom (hosts (contents inv2)) = dom (hosts (contents (inv1 @ between)))"
    by blast
  from host_entry_after [OF on2 p2] same
  show "\<exists>vars. hosts (contents inv2) (servername opts r1) = Some vars \<and> carries opts r2 vars"
    by simp
next
  let ?on = "filter (\<lambda>r. status r = ''online'') recs"
  assume b: "build ZClient opts server_list [] = (Inr (), inventory) \<and>
    map (get_server_info ZClient (wsdl_url opts) (customer_id opts) (password opts)) server_list =
      map Inr recs \<and>
    \<not> distinct (map (servername opts) ?on)"
  then have bld: "build ZClient opts server_list [] = (Inr (), inventory)"
    and fetched: "map (get_server_info ZClient (wsdl_url opts) (customer_id opts) (password opts))
        server_list = map Inr recs"
    and dup: "\<not> distinct (map (servername opts) ?on)"
    by simp_all
  from build_ok [OF bld] obtain recs' where
    fetched': "map (get_server_info ZClient (wsdl_url opts) (customer_id opts) (password opts))
        server_list = map Inr recs'"
    and inv: "inventory = AddGroup (group_opt opts) # concat (map (\<lambda>r. snd (parse_server opts r [])) recs')"
    and oks: "\<forall>r \<in> set recs'. fst (parse_server opts r []) = Inr ()"
    by blast
  from fetched fetched' have "map Inr recs' = (map Inr recs :: (error + server_data) list)"
    by simp
  then have "recs' = recs"
    by (simp add: inj_map_eq_map)
  with contents_after_group(1) [OF oks inv]
  have d: "dom (hosts (contents inventory)) = set (map (servername opts) ?on)"
    by (simp only: online_names_set)
  have "card (set (map (servername opts) ?on)) \<noteq> length (map (servername opts) ?on)"
    using dup card_distinct by blast
  moreover have "card (set (map (servername opts) ?on)) \<le> length (map (servername opts) ?on)"
    by (rule card_length)
  ultimately show "card (dom (hosts (contents inventory))) < length ?on"
    by (simp add: d)
qed

theorem duplicate_names_share_host_entry_witness:
  "(status server_web1 = ''online'' \<and> status server_web3 = ''online'' \<and>
    servername default_opts server_web1 = servername default_opts server_web3 \<and>
    parse_server default_opts server_web1 [] = (Inr (), 
      [AddHost ''web'',
       SetVariable ''web'' ''ansible_host'' (Str ''1.2.3.4''),
       SetVariable ''web'' ''netcup_server_name'' (Str ''v1''),
       SetVariable ''web'' ''netcup_server_nickname'' (Str ''web''),
       SetVariable ''web'' ''netcup_reboot_recommended'' (Bool False),
       SetVariable ''web'' ''netcup_status'' (Str ''online''),
       AddChild ''netcup'' ''web'']) \<and>
    parse_server default_opts server_web3 (
      [AddHost ''web'',
       SetVariable ''web'' ''ansible_host'' (Str ''1.2.3.4''),
       SetVariable ''web'' ''netcup_server_name'' (Str ''v1''),
       SetVariable ''web'' ''netcup_server_nickname'' (Str ''web''),
       SetVariable ''web'' ''netcup_reboot_recommended'' (Bool False),
       SetVariable ''web'' ''netcup_status'' (Str ''online''),
       AddChild ''netcup'' ''web''] @ []) = (Inr (), 
      [AddHost ''web'',
       SetVariable ''web'' ''ansible_host'' (Str ''1.2.3.4''),
       SetVariable ''web'' ''netcup_server_name'' (Str ''v1''),
       SetVariable ''web'' ''netcup_server_nickname'' (Str ''web''),
       SetVariable ''web'' ''netcup_reboot_recommended'' (Bool False),
       SetVariable ''web'' ''netcup_status'' (Str ''online''),
       AddChild ''netcup'' ''web'',
       AddHost ''web'',
       SetVariable ''web'' ''ansible_host'' (Str ''9.9.9.9''),
       SetVariable ''web'' ''netcup_server_name'' (Str ''v3''),
       SetVariable ''web'' ''netcup_server_nickname'' (Str ''web''),
       SetVariable ''web'' ''netcup_reboot_recommended'' (Bool True),
       SetVariable ''web'' ''netcup_status'' (Str ''online''),
       AddChild ''netcup'' ''web''])) \<and>
   ((\<exists>vars. hosts (contents 
      [AddHost ''web'',
       SetVariable ''web'' ''ansible_host'' (Str ''1.2.3.4''),
       SetVariable ''web'' ''netcup_server_name'' (Str ''v1''),
       SetVariable ''web'' ''netcup_server_nickname'' (Str ''web''),
       SetVariable ''web'' ''netcup_reboot_recommended'' (Bool False),
       SetVariable ''web'' ''netcup_status'' (Str ''online''),
       AddChild ''netcup'' ''web'']) (servername default_opts server_web1) = Some vars \<and>
       carries default_opts server_web1 vars) \<and>
    dom (hosts (contents 
      [AddHost ''web'',
       SetVariable ''web'' ''ansible_host'' (Str ''1.2.3.4''),
       SetVariable ''web'' ''netcup_server_name'' (Str ''v1''),
       SetVariable ''web'' ''netcup_server_nickname'' (Str ''web''),
       SetVariable ''web'' ''netcup_reboot_recommended'' (Bool False),
       SetVariable ''web'' ''netcup_status'' (Str ''online''),
       AddChild ''netcup'' ''web'',
       AddHost ''web'',
       SetVariable ''web'' ''ansible_host'' (Str ''9.9.9.9''),
       SetVariable ''web'' ''netcup_server_name'' (Str ''v3''),
       SetVariable ''web'' ''netcup_server_nickname'' (Str ''web''),
       SetVariable ''web'' ''netcup_reboot_recommended'' (Bool True),
       SetVariable ''web'' ''netcup_status'' (Str ''online''),
       AddChild ''netcup'' ''web''])) = dom (hosts (contents (
      [AddHost ''web'',
       SetVariable ''web'' ''ansible_host'' (Str ''1.2.3.4''),
       SetVariable ''web'' ''netcup_server_name'' (Str ''v1''),
       SetVariable ''web'' ''netcup_server_nickname'' (Str ''web''),
       SetVariable ''web'' ''netcup_reboot_recommended'' (Bool False),
       SetVariable ''web'' ''netcup_status'' (Str ''online''),
       AddChild ''netcup'' ''web''] @ []))) \<and>
    (\<exists>vars. hosts (contents 
      [AddHost ''web'',
       SetVariable ''web'' ''ansible_host'' (Str ''1.2.3.4''),
       SetVariable ''web'' ''netcup_server_name'' (Str ''v1''),
       SetVariable ''web'' ''netcup_server_nickname'' (Str ''web''),
       SetVariable ''web'' ''netcup_reboot_recommended'' (Bool False),
       SetVariable ''web'' ''netcup_status'' (Str ''online''),
       AddChild ''netcup'' ''web'',
       AddHost ''web'',
       SetVariable ''web'' ''ansible_host'' (Str ''9.9.9.9''),
       SetVariable ''web'' ''netcup_server_name'' (Str ''v3''),
       SetVariable ''web'' ''netcup_server_nickname'' (Str ''web''),
       SetVariable ''web'' ''netcup_reboot_recommended'' (Bool True),
       SetVariable ''web'' ''netcup_status'' (Str ''online''),
       AddChild ''netcup'' ''web'']) (servername default_opts server_web1) = Some vars \<and>
       carries default_opts server_web3 vars)) \<and>
   (build web_client default_opts [''v1'', ''v3''] [] = (Inr (), 
      [AddGroup ''netcup'',
       AddHost ''web'',
       SetVariable ''web'' ''ansible_host'' (Str ''1.2.3.4''),
       SetVariable ''web'' ''netcup_server_name'' (Str ''v1''),
       SetVariable ''web'' ''netcup_server_nickname'' (Str ''web''),
       SetVariable ''web'' ''netcup_reboot_recommended'' (Bool False),
       SetVariable ''web'' ''netcup_status'' (Str ''online''),
       AddChild ''netcup'' ''web'',
       AddHost ''web'',
       SetVariable ''web'' ''ansible_host'' (Str ''9.9.9.9''),
       SetVariable ''web'' ''netcup_server_name'' (Str ''v3''),
       SetVariable ''web'' ''netcup_server_nickname'' (Str ''web''),
       SetVariable ''web'' ''netcup_reboot_recommended'' (Bool True),
       SetVariable ''web'' ''netcup_status'' (Str ''online''),
       AddChild ''netcup'' ''web'']) \<and>
    map (get_server_info web_client (wsdl_url default_opts) (customer_id default_opts)
           (password default_opts)) [''v1'', ''v3''] = map Inr [server_web1, server_web3] \<and>
    \<not> distinct (map (servername default_opts)
         (filter (\<lambda>r. status r = ''online'') [server_web1, server_web3]))) \<and>
   card (dom (hosts (contents 
      [AddGroup ''netcup'',
       AddHost ''web'',
       SetVariable ''web'' ''ansible_host'' (Str ''1.2.3.4''),
       SetVariable ''web'' ''netcup_server_name'' (Str ''v1''),
       SetVariable ''web'' ''netcup_server_nickname'' (Str ''web''),
       SetVariable ''web'' ''netcup_reboot_recommended'' (Bool False),
       SetVariable ''web'' ''netcup_status'' (Str ''online''),
       AddChild ''netcup'' ''web'',
       AddHost ''web'',
       SetVariable ''web'' ''ansible_host'' (Str ''9.9.9.9''),
       SetVariable ''web'' ''netcup_server_name'' (Str ''v3''),
       SetVariable ''web'' ''netcup_server_nickname'' (Str ''web''),
       SetVariable ''web'' ''netcup_reboot_recommended'' (Bool True),
       SetVariable ''web'' ''netcup_status'' (Str ''online''),
       AddChild ''netcup'' ''web'']))) <
      length (filter (\<lambda>r. status r = ''online'') [server_web1, server_web3])"
proof -
  have ha: "status server_web1 = ''online'' \<and> status server_web3 = ''online'' \<and>
    servername default_opts server_web1 = servername default_opts server_web3 \<and>
    parse_server default_opts server_web1 [] = (Inr (), 
      [AddHost ''web'',
       SetVariable ''web'' ''ansible_host'' (Str ''1.2.3.4''),
       SetVariable ''web'' ''netcup_server_name'' (Str ''v1''),
       SetVariable ''web'' ''netcup_server_nickname'' (Str ''web''),
       SetVariable ''web'' ''netcup_reboot_recommended'' (Bool False),
       SetVariable ''web'' ''netcup_status'' (Str ''online''),
       AddChild ''netcup'' ''web'']) \<and>
    parse_server default_opts server_web3 (
      [AddHost ''web'',
       SetVariable ''web'' ''ansible_host'' (Str ''1.2.3.4''),
       SetVariable ''web'' ''netcup_server_name'' (Str ''v1''),
       SetVariable ''web'' ''netcup_server_nickname'' (Str ''web''),
       SetVariable ''web'' ''netcup_reboot_recommended'' (Bool False),
       SetVariable ''web'' ''netcup_status'' (Str ''online''),
       AddChild ''netcup'' ''web''] @ []) = (Inr (), 
      [AddHost ''web'',
       SetVariable ''web'' ''ansible_host'' (Str ''1.2.3.4''),
       SetVariable ''web'' ''netcup_server_name'' (Str ''v1''),
       SetVariable ''web'' ''netcup_server_nickname'' (Str ''web''),
       SetVariable ''web'' ''netcup_reboot_recommended'' (Bool False),
       SetVariable ''web'' ''netcup_status'' (Str ''online''),
       AddChild ''netcup'' ''web'',
       AddHost ''web'',
       SetVariable ''web'' ''ansible_host'' (Str ''9.9.9.9''),
       SetVariable ''web'' ''netcup_server_name'' (Str ''v3''),
       SetVariable ''web'' ''netcup_server_nickname'' (Str ''web''),
       SetVariable ''web'' ''netcup_reboot_recommended'' (Bool True),
       SetVariable ''web'' ''netcup_status'' (Str ''online''),
       AddChild ''netcup'' ''web''])"
    by (simp add: default_opts_def server_web1_def server_web3_def parse_server_online
          match_ansible_host_type_def index0_def set_variable_def servername_def)
  have hb: "build web_client default_opts [''v1'', ''v3''] [] = (Inr (), 
      [AddGroup ''netcup'',
       AddHost ''web'',
       SetVariable ''web'' ''ansible_host'' (Str ''1.2.3.4''),
       SetVariable ''web'' ''netcup_server_name'' (Str ''v1''),
       SetVariable ''web'' ''netcup_server_nickname'' (Str ''web''),
       SetVariable ''web'' ''netcup_reboot_recommended'' (Bool False),
       SetVariable ''web'' ''netcup_status'' (Str ''online''),
       AddChild ''netcup'' ''web'',
       AddHost ''web'',
       SetVariable ''web'' ''ansible_host'' (Str ''9.9.9.9''),
       SetVariable ''web'' ''netcup_server_name'' (Str ''v3''),
       SetVariable ''web'' ''netcup_server_nickname'' (Str ''web''),
       SetVariable ''web'' ''netcup_reboot_recommended'' (Bool True),
       SetVariable ''web'' ''netcup_status'' (Str ''online''),
       AddChild ''netcup'' ''web'']) \<and>
    map (get_server_info web_client (wsdl_url default_opts) (customer_id default_opts)
           (password default_opts)) [''v1'', ''v3''] = map Inr [server_web1, server_web3] \<and>
    \<not> distinct (map (servername default_opts)
         (filter (\<lambda>r. status r = ''online'') [server_web1, server_web3]))"
  proof (intro conjI)
    show "\<not> distinct (map (servername default_opts)
         (filter (\<lambda>r. status r = ''online'') [server_web1, server_web3]))"
      by (simp add: default_opts_def server_web1_def server_web3_def servername_def)
  qed (rule build_web fetch_web)+
  note both = duplicate_names_share_host_entry
    [of server_web1 server_web3 default_opts "[]" "[AddHost ''web'',
       SetVariable ''web'' ''ansible_host'' (Str ''1.2.3.4''),
       SetVariable ''web'' ''netcup_server_name'' (Str ''v1''),
       SetVariable ''web'' ''netcup_server_nickname'' (Str ''web''),
       SetVariable ''web'' ''netcup_reboot_recommended'' (Bool False),
       SetVariable ''web'' ''netcup_status'' (Str ''online''),
       AddChild ''netcup'' ''web'']" "[]" "[AddHost ''web'',
       SetVariable ''web'' ''ansible_host'' (Str ''1.2.3.4''),
       SetVariable ''web'' ''netcup_server_name'' (Str ''v1''),
       SetVariable ''web'' ''netcup_server_nickname'' (Str ''web''),
       SetVariable ''web'' ''netcup_reboot_recommended'' (Bool False),
       SetVariable ''web'' ''netcup_status'' (Str ''online''),
       AddChild ''netcup'' ''web'',
       AddHost ''web'',
       SetVariable ''web'' ''ansible_host'' (Str ''9.9.9.9''),
       SetVariable ''web'' ''netcup_server_name'' (Str ''v3''),
       SetVariable ''web'' ''netcup_server_nickname'' (Str ''web''),
       SetVariable ''web'' ''netcup_reboot_recommended'' (Bool True),
       SetVariable ''web'' ''netcup_status'' (Str ''online''),
       AddChild ''netcup'' ''web'']"
      web_client "[''v1'', ''v3'']" "[AddGroup ''netcup'',
       AddHost ''web'',
       SetVariable ''web'' ''ansible_host'' (Str ''1.2.3.4''),
       SetVariable ''web'' ''netcup_server_name'' (Str ''v1''),
       SetVariable ''web'' ''netcup_server_nickname'' (Str ''web''),
       SetVariable ''web'' ''netcup_reboot_recommended'' (Bool False),
       SetVariable ''web'' ''netcup_status'' (Str ''online''),
       AddChild ''netcup'' ''web'',
       AddHost ''web'',
       SetVariable ''web'' ''ansible_host'' (Str ''9.9.9.9''),
       SetVariable ''web'' ''netcup_server_name'' (Str ''v3''),
       SetVariable ''web'' ''netcup_server_nickname'' (Str ''web''),
       SetVariable ''web'' ''netcup_reboot_recommended'' (Bool True),
       SetVariable ''web'' ''netcup_status'' (Str ''online''),
       AddChild ''netcup'' ''web'']" "[server_web1, server_web3]"]
  from both ha have ca: "(\<exists>vars. hosts (contents 
      [AddHost ''web'',
       SetVariable ''web'' ''ansible_host'' (Str ''1.2.3.4''),
       SetVariable ''web'' ''netcup_server_name'' (Str ''v1''),
       SetVariable ''web'' ''netcup_server_nickname'' (Str ''web''),
       SetVariable ''web'' ''netcup_reboot_recommended'' (Bool False),
       SetVariable ''web'' ''netcup_status'' (Str ''online''),
       AddChild ''netcup'' ''web'']) (servername default_opts server_web1) = Some vars \<and>
       carries default_opts server_web1 vars) \<and>
    dom (hosts (contents 
      [AddHost ''web'',
       SetVariable ''web'' ''ansible_host'' (Str ''1.2.3.4''),
       SetVariable ''web'' ''netcup_server_name'' (Str ''v1''),
       SetVariable ''web'' ''netcup_server_nickname'' (Str ''web''),
       SetVariable ''web'' ''netcup_reboot_recommended'' (Bool False),
       SetVariable ''web'' ''netcup_status'' (Str ''online''),
       AddChild ''netcup'' ''web'',
       AddHost ''web'',
       SetVariable ''web'' ''ansible_host'' (Str ''9.9.9.9''),
       SetVariable ''web'' ''netcup_server_name'' (Str ''v3''),
       SetVariable ''web'' ''netcup_server_nickname'' (Str ''web''),
       SetVariable ''web'' ''netcup_reboot_recommended'' (Bool True),
       SetVariable ''web'' ''netcup_status'' (Str ''online''),
       AddChild ''netcup'' ''web''])) = dom (hosts (contents (
      [AddHost ''web'',
       SetVariable ''web'' ''ansible_host'' (Str ''1.2.3.4''),
       SetVariable ''web'' ''netcup_server_name'' (Str ''v1''),
       SetVariable ''web'' ''netcup_server_nickname'' (Str ''web''),
       SetVariable ''web'' ''netcup_reboot_recommended'' (Bool False),
       SetVariable ''web'' ''netcup_status'' (Str ''online''),
       AddChild ''netcup'' ''web''] @ []))) \<and>
    (\<exists>vars. hosts (contents 
      [AddHost ''web'',
       SetVariable ''web'' ''ansible_host'' (Str ''1.2.3.4''),
       SetVariable ''web'' ''netcup_server_name'' (Str ''v1''),
       SetVariable ''web'' ''netcup_server_nickname'' (Str ''web''),
       SetVariable ''web'' ''netcup_reboot_recommended'' (Bool False),
       SetVariable ''web'' ''netcup_status'' (Str ''online''),
       AddChild ''netcup'' ''web'',
       AddHost ''web'',
       SetVariable ''web'' ''ansible_host'' (Str ''9.9.9.9''),
       SetVariable ''web'' ''netcup_server_name'' (Str ''v3''),
       SetVariable ''web'' ''netcup_server_nickname'' (Str ''web''),
       SetVariable ''web'' ''netcup_reboot_recommended'' (Bool True),
       SetVariable ''web'' ''netcup_status'' (Str ''online''),
       AddChild ''netcup'' ''web'']) (servername default_opts server_web1) = Some vars \<and>
       carries default_opts server_web3 vars)"
    by (rule conjunct1 [THEN mp])
  from both hb have cb: "card (dom (hosts (contents 
      [AddGroup ''netcup'',
       AddHost ''web'',
       SetVariable ''web'' ''ansible_host'' (Str ''1.2.3.4''),
       SetVariable ''web'' ''netcup_server_name'' (Str ''v1''),
       SetVariable ''web'' ''netcup_server_nickname'' (Str ''web''),
       SetVariable ''web'' ''netcup_reboot_recommended'' (Bool False),
       SetVariable ''web'' ''netcup_status'' (Str ''online''),
       AddChild ''netcup'' ''web'',
       AddHost ''web'',
       SetVariable ''web'' ''ansible_host'' (Str ''9.9.9.9''),
       SetVariable ''web'' ''netcup_server_name'' (Str ''v3''),
       SetVariable ''web'' ''netcup_server_nickname'' (Str ''web''),
       SetVariable ''web'' ''netcup_reboot_recommended'' (Bool True),
       SetVariable ''web'' ''netcup_status'' (Str ''online''),
       AddChild ''netcup'' ''web'']))) <
      length (filter (\<lambda>r. status r = ''online'') [server_web1, server_web3])"
    by (rule conjunct2 [THEN mp])
  show ?thesis
    by (rule conjI [OF ha conjI [OF ca conjI [OF hb cb]]])
qed

end
